theory Spec2Isabelle
  imports Main "HOL-Library.Sublist"
begin

section \<open>DownCLI: a shallow embedding of \<^verbatim>\<open>src/DownCLI.py\<close>\<close>

text \<open>
  The program has three functions with behaviour of their own: \<^verbatim>\<open>copy_url\<close> (the
  Fetcher: one streamed download), \<^verbatim>\<open>download\<close> (the Dispatcher: one HEAD probe, one
  display task and one submitted job per URL) and the \<^verbatim>\<open>__main__\<close> block. All three
  are effectful, so the model threads a \<open>world\<close> record through them and lets every
  \<^verbatim>\<open>raise\<close> be an \<open>Inl\<close> result. What the program cannot decide by itself (what the
  network answers and in which pieces a body arrives, whether a file can be
  opened, when SIGINT arrives, which limit the interpreter puts on \<^verbatim>\<open>int\<close>) is an
  oracle in the records \<open>env\<close> and \<open>response\<close>, over which every theorem is
  universally quantified.
\<close>

subsection \<open>Python values\<close>

type_synonym bytes = "char list"

datatype py_key = StrKey string | TaskKey nat

datatype exn =
    RequestException string
  | KeyError py_key
  | ValueError string
  | IndexError
  | OSError string

text \<open>\<^verbatim>\<open>s.split(sep)\<close> for a one-character separator. The result is never empty.\<close>

fun str_split :: "char \<Rightarrow> string \<Rightarrow> string list" where
  "str_split sep [] = [[]]"
| "str_split sep (c # cs) =
     (if c = sep then [] # str_split sep cs
      else (case str_split sep cs of
              [] \<Rightarrow> [[c]]
            | p # ps \<Rightarrow> (c # p) # ps))"

text \<open>\<^verbatim>\<open>str(n)\<close> for an integer.\<close>

definition digit_chars :: string where
  "digit_chars = ''0123456789''"

fun str_nat :: "nat \<Rightarrow> string" where
  "str_nat n =
     (if n < 10 then [digit_chars ! n]
      else str_nat (n div 10) @ [digit_chars ! (n mod 10)])"

declare str_nat.simps [simp del]

definition str_int :: "int \<Rightarrow> string" where
  "str_int i = (if i < 0 then CHR ''-'' # str_nat (nat (- i)) else str_nat (nat i))"








text \<open>\<^verbatim>\<open>os.path.join(a, b)\<close> with two arguments (the POSIX implementation).\<close>

definition path_join :: "string \<Rightarrow> string \<Rightarrow> string" where
  "path_join a b =
     (if b \<noteq> [] \<and> hd b = CHR ''/'' then b
      else if a = [] \<or> last a = CHR ''/'' then a @ b
      else a @ ''/'' @ b)"

subsection \<open>The network\<close>

text \<open>
  A request is \<^verbatim>\<open>requests.get(url, stream=...)\<close> or \<^verbatim>\<open>requests.head(url)\<close>. A response
  carries its status code, its headers, and its body, which has not been read yet.
  \<open>headers r name\<close> is what the library's case-insensitive dictionary holds under
  \<open>name\<close>. \<open>stream r n\<close> is what reading the body with chunk size \<open>n\<close> yields
  (\<^verbatim>\<open>raw.stream(n, decode_content=True)\<close>): the pieces in their order, with an \<open>Inl\<close>
  item where the transport fails. How long the pieces are is the library's matter:
  \<open>n\<close> bytes each for a plain body, other lengths for a compressed or a chunked
  one. So the pieces are an oracle too.
\<close>

datatype http_request = Get string bool | Head string

record response =
  status_code :: int
  headers :: "string \<rightharpoonup> string"
  stream :: "nat \<Rightarrow> (exn + bytes) list"

text \<open>\<^verbatim>\<open>requests.codes.ok\<close>\<close>

definition codes_ok :: int where
  "codes_ok = 200"

text \<open>
  \<^verbatim>\<open>response.content\<close> on a response that has not been read: the library joins the
  pieces of \<^verbatim>\<open>iter_content(CONTENT_CHUNK_SIZE)\<close> and keeps the result; it raises when
  the stream breaks.
\<close>

definition CONTENT_CHUNK_SIZE :: nat where
  "CONTENT_CHUNK_SIZE = 10240"

fun join_pieces :: "(exn + bytes) list \<Rightarrow> exn + bytes" where
  "join_pieces [] = Inr []"
| "join_pieces (Inl e # items) = Inl e"
| "join_pieces (Inr d # items) =
     (case join_pieces items of Inl e \<Rightarrow> Inl e | Inr b \<Rightarrow> Inr (d @ b))"

definition content :: "response \<Rightarrow> exn + bytes" where
  "content r = join_pieces (stream r CONTENT_CHUNK_SIZE)"

text \<open>
  Cutting a byte string into pieces of \<open>n\<close> bytes, the last one possibly shorter
  (the library's \<^verbatim>\<open>iter_slices\<close>, which takes the whole string for \<open>n = 0\<close>).
\<close>

function slices :: "nat \<Rightarrow> bytes \<Rightarrow> bytes list" where
  "slices n xs =
     (if xs = [] then []
      else if n = 0 then [xs]
      else take n xs # slices n (drop n xs))"
  by pat_completeness auto
termination
  by (relation "measure (\<lambda>(n, xs). length xs)") auto

declare slices.simps [simp del]


subsection \<open>The world\<close>

text \<open>
  A display task of the \<^verbatim>\<open>rich\<close> progress object, with the three custom fields the
  program gives it. \<^verbatim>\<open>add_task\<close> starts every task with total 100 and completed 0.
\<close>

record task =
  description :: string
  filename :: string
  contenttype :: string
  responsecode :: string
  total_t :: int
  completed :: int
  started :: bool

text \<open>
  Every effect other than a network request appends an event to \<open>trace\<close>;
  network requests are kept in \<open>requests\<close>, in the order they were issued.
\<close>

datatype event =
    Printed string
  | Logged string
  | DisplayStarted
  | DisplayStopped
  | PoolCreated nat
  | PoolShutdown
  | TaskAdded nat
  | Submitted nat string string
  | TotalSet nat int
  | TaskStarted nat
  | Opened string
  | Written string bytes
  | Advanced nat int
  | Closed string

record world =
  tasks :: "nat \<rightharpoonup> task"
  task_index :: nat
  files :: "string \<rightharpoonup> bytes"
  handles :: "string list"
  requests :: "http_request list"
  pool :: "(nat \<times> string \<times> string) list"
  done_event :: bool
  trace :: "event list"

text \<open>
  The oracles. \<open>net env history r\<close> is the outcome of request \<open>r\<close> after the requests
  of \<open>history\<close>; \<open>fs_open env path\<close> is the error of \<^verbatim>\<open>open(path, "wb")\<close>, if any;
  \<open>sigint env i\<close> says that SIGINT is delivered during iteration \<open>i\<close> of the chunk
  loop of the Fetcher at hand, at any moment before that iteration polls the event;
  \<open>int_max_str_digits env\<close> is the interpreter's limit on the digits of \<^verbatim>\<open>int\<close>.
\<close>

record env =
  net :: "http_request list \<Rightarrow> http_request \<Rightarrow> exn + response"
  fs_open :: "string \<Rightarrow> exn option"
  sigint :: "nat \<Rightarrow> bool"
  int_max_str_digits :: nat

definition emit :: "event \<Rightarrow> world \<Rightarrow> world" where
  "emit ev w = w\<lparr>trace := trace w @ [ev]\<rparr>"


definition http :: "env \<Rightarrow> http_request \<Rightarrow> world \<Rightarrow> (exn + response) \<times> world" where
  "http env r w = (net env (requests w) r, w\<lparr>requests := requests w @ [r]\<rparr>)"





definition add_task ::
  "string \<Rightarrow> string \<Rightarrow> string \<Rightarrow> string \<Rightarrow> bool \<Rightarrow> world \<Rightarrow> nat \<times> world" where
  "add_task descr fname ctype rcode start w =
     (let task_id = task_index w;
          t = \<lparr>description = descr, filename = fname, contenttype = ctype,
               responsecode = rcode, total_t = 100, completed = 0, started = start\<rparr>
      in (task_id,
          emit (TaskAdded task_id)
            (w\<lparr>tasks := (tasks w)(task_id \<mapsto> t), task_index := Suc task_id\<rparr>)))"


definition read_file :: "world \<Rightarrow> string \<Rightarrow> bytes" where
  "read_file w path = (case files w path of None \<Rightarrow> [] | Some b \<Rightarrow> b)"



definition pool_submit :: "nat \<times> string \<times> string \<Rightarrow> world \<Rightarrow> world" where
  "pool_submit job w =
     (case job of (task_id, url, path) \<Rightarrow>
        emit (Submitted task_id url path) (w\<lparr>pool := pool w @ [job]\<rparr>))"

subsection \<open>The Fetcher: \<^verbatim>\<open>copy_url\<close>\<close>





subsection \<open>The Dispatcher: \<^verbatim>\<open>download\<close>\<close>

text \<open>
  Lines 66 to 77, the body of the loop for one URL. A submitted job is the triple
  of arguments that the pool will pass to \<^verbatim>\<open>copy_url\<close>; the pool runs it on a
  thread of its own, which is outside this function.
\<close>

definition download_url :: "env \<Rightarrow> string \<Rightarrow> string \<Rightarrow> world \<Rightarrow> (exn + unit) \<times> world" where
  "download_url env dest_dir url w =
     (let filename0 = last (str_split CHR ''/'' url) in
      case http env (Head url) w of
        (Inl e, w1) \<Rightarrow> (Inl e, w1)
      | (Inr response, w1) \<Rightarrow>
     (case headers response ''Content-Type'' of
        None \<Rightarrow> (Inl (KeyError (StrKey ''content-type'')), w1)
      | Some v \<Rightarrow>
          (let ctype = hd (str_split CHR '';'' v);
               fname = (if ctype = ''text/plain'' then filename0 @ ''.txt'' else filename0);
               dest_path = path_join dest_dir fname;
               rcode = (if status_code response = codes_ok
                        then ''[green]'' @ str_int (status_code response) @ ''[/]''
                        else ''[red]'' @ str_int (status_code response) @ ''[/]'');
               (task_id, w2) = add_task ''download'' fname ctype rcode False w1
           in (Inr (), pool_submit (task_id, url, dest_path) w2))))"

fun download_loop :: "env \<Rightarrow> string \<Rightarrow> string list \<Rightarrow> world \<Rightarrow> (exn + unit) \<times> world" where
  "download_loop env dest_dir [] w = (Inr (), w)"
| "download_loop env dest_dir (url # urls) w =
     (case download_url env dest_dir url w of
        (Inl e, w') \<Rightarrow> (Inl e, w')
      | (Inr u, w') \<Rightarrow> download_loop env dest_dir urls w')"

text \<open>
  The two \<^verbatim>\<open>with\<close> blocks around the loop: the display is started and stopped, the
  pool is created with four workers and shut down, whether the loop raises or not.
\<close>

definition max_workers :: nat where
  "max_workers = 4"

definition download :: "env \<Rightarrow> string list \<Rightarrow> string \<Rightarrow> world \<Rightarrow> (exn + unit) \<times> world" where
  "download env urls dest_dir w =
     (case download_loop env dest_dir urls (emit (PoolCreated max_workers) (emit DisplayStarted w)) of
        (r, w') \<Rightarrow> (r, emit DisplayStopped (emit PoolShutdown w')))"

subsection \<open>The command line\<close>

definition help_msg :: string where
  "help_msg =
     ''CLI-based downloader written in Python'' @ [CHR 0x0A] @
      [CHR 0x09] @ ''Usage: [bold green]python[/] [blue]downloader[/].[green]py[/] [[italic]-h, --help[/]] [[italic]-d, --directory[/] [bold purple]DIRECTORY[/]] [yellow]URL[/] [[italic purple]URL2 URL3 ... etc[/]]'' @ [CHR 0x0A] @
      [CHR 0x0A] @
      ''Optional Argument:'' @ [CHR 0x0A] @
      '' [yellow]-h[/], [yellow]--help[/]                |  Prints [purple]help[/] message and [yellow]exits[/]'' @ [CHR 0x0A] @
      '' [yellow]-d[/], [yellow]--directory[/] [bold italic]DIRECTORY[/] |  Downloads files in [purple]DIRECTORY[/] instead of default [yellow]./[/]'' @ [CHR 0x0A] @
      '' ''"

definition print_help_msg :: "world \<Rightarrow> world" where
  "print_help_msg w = emit (Printed help_msg) w"

text \<open>
  Lines 91 to 101, with \<open>argv\<close> for \<^verbatim>\<open>sys.argv\<close>. In the \<^verbatim>\<open>-d\<close> branch the arguments
  of the call are evaluated first, and \<^verbatim>\<open>sys.argv[2]\<close> raises when there is no such
  element.
\<close>

definition main :: "env \<Rightarrow> string list \<Rightarrow> world \<Rightarrow> (exn + unit) \<times> world" where
  "main env argv w =
     (if length argv \<ge> 2 then
        (if argv ! 1 \<in> set [''-h'', ''--help''] then
           download env (drop 2 argv) ''./'' (print_help_msg w)
         else if argv ! 1 \<in> set [''-d'', ''--directory''] then
           (if length argv > 2 then download env (drop 3 argv) (argv ! 2) w
            else (Inl IndexError, w))
         else download env (drop 1 argv) ''./'' w)
      else (Inr (), print_help_msg w))"

text \<open>
  The exit status of the interpreter: 0 when the main module runs to its end, 1
  when an exception leaves it.
\<close>

definition exit_code :: "(exn + unit) \<times> world \<Rightarrow> int" where
  "exit_code rw = (case fst rw of Inl e \<Rightarrow> 1 | Inr u \<Rightarrow> 0)"

subsection \<open>Notions used in the statements\<close>

text \<open>
  The events of the chunks \<open>ds\<close>, handled one after the other: each chunk is written
  to the file at \<open>path\<close>, then the counter of task \<open>task_id\<close> is advanced by its length.
\<close>

definition chunk_events :: "string \<Rightarrow> nat \<Rightarrow> bytes list \<Rightarrow> event list" where
  "chunk_events path task_id ds =
     concat (map (\<lambda>d. [Written path d, Advanced task_id (int (length d))]) ds)"

text \<open>
  The world after the chunks \<open>ds\<close> have been written to the open file at \<open>path\<close> and
  counted for task \<open>task_id\<close>.
\<close>

definition transferred :: "nat \<Rightarrow> string \<Rightarrow> bytes list \<Rightarrow> world \<Rightarrow> world" where
  "transferred task_id path ds w =
     w\<lparr>files := (files w)(path \<mapsto> read_file w path @ concat ds),
       tasks := (case tasks w task_id of
                   None \<Rightarrow> tasks w
                 | Some t \<Rightarrow>
                     (tasks w)(task_id \<mapsto> t\<lparr>completed := completed t + int (length (concat ds))\<rparr>)),
       trace := trace w @ chunk_events path task_id ds\<rparr>"

text \<open>
  The pieces that the loop stores, of the items that the iterator has for it:
  every piece up to and including the first one whose poll finds the event set,
  and no piece from the first failure of the stream on. \<open>flag\<close> says whether the
  event is set when the loop starts, \<open>i\<close> numbers the iterations.
\<close>

fun handled :: "env \<Rightarrow> bool \<Rightarrow> nat \<Rightarrow> (exn + bytes) list \<Rightarrow> bytes list" where
  "handled env flag i [] = []"
| "handled env flag i (Inl e # items) = []"
| "handled env flag i (Inr d # items) =
     d # (if flag \<or> sigint env i then [] else handled env flag (Suc i) items)"

text \<open>
  The world in which the chunk loop of \<^verbatim>\<open>copy_url\<close> starts when nothing has failed
  before it: both requests are issued, the total \<open>n\<close> is set, the file is open and
  empty, the task is started.
\<close>

definition ready :: "nat \<Rightarrow> string \<Rightarrow> string \<Rightarrow> int \<Rightarrow> world \<Rightarrow> world" where
  "ready task_id url path n w =
     w\<lparr>requests := requests w @ [Get url True, Head url],
       tasks := (case tasks w task_id of
                   None \<Rightarrow> tasks w
                 | Some t \<Rightarrow> (tasks w)(task_id \<mapsto> t\<lparr>total_t := n, started := True\<rparr>)),
       files := (files w)(path \<mapsto> []),
       handles := path # handles w,
       trace := trace w @
         [Logged (''Requesting '' @ url), TotalSet task_id n, Opened path, TaskStarted task_id]\<rparr>"

text \<open>By how much a list of events advances the counter of a task.\<close>

fun advanced_by :: "nat \<Rightarrow> event list \<Rightarrow> int" where
  "advanced_by task_id [] = 0"
| "advanced_by task_id (Advanced i n # evs) =
     (if i = task_id then n + advanced_by task_id evs else advanced_by task_id evs)"
| "advanced_by task_id (ev # evs) = advanced_by task_id evs"

subsection \<open>Example inputs\<close>

text \<open>
  The state at the start of the process (lines 15 and 30: a progress object without
  tasks, an event that is not set), and servers that answer every request the same
  way, with a plain body that is read in pieces of the size asked for, under an
  interpreter with the default limit for \<^verbatim>\<open>int\<close>. The examples below are run on them.
\<close>

definition initial_world :: world where
  "initial_world =
     \<lparr>tasks = Map.empty, task_index = 0, files = Map.empty, handles = [], requests = [],
      pool = [], done_event = False, trace = []\<rparr>"

definition example_response :: "int \<Rightarrow> (string \<times> string) list \<Rightarrow> bytes \<Rightarrow> response" where
  "example_response code hs body =
     \<lparr>status_code = code, headers = map_of hs, stream = (\<lambda>n. map Inr (slices n body))\<rparr>"

definition example_env ::
  "(string \<Rightarrow> exn + response) \<Rightarrow> (string \<Rightarrow> exn + response) \<Rightarrow> (nat \<Rightarrow> bool) \<Rightarrow> env" where
  "example_env on_head on_get sig =
     \<lparr>net = (\<lambda>h r. case r of Head u \<Rightarrow> on_head u | Get u s \<Rightarrow> on_get u),
      fs_open = (\<lambda>p. None),
      sigint = sig,
      int_max_str_digits = 4300\<rparr>"




section \<open>Properties\<close>

subsection \<open>Strings\<close>

lemma str_split_not_Nil: "str_split c s \<noteq> []"
  by (induction s) (auto split: list.splits)

lemma hd_str_split: "hd (str_split c s) = takeWhile (\<lambda>x. x \<noteq> c) s"
  using str_split_not_Nil [of c]
  by (induction s) (auto split: list.splits)




subsection \<open>One URL of the Dispatcher\<close>

text \<open>
  When the probe answers and carries a \<^verbatim>\<open>Content-Type\<close> header, \<^verbatim>\<open>download_url\<close> cannot
  fail: it issues the one HEAD request, registers one task under the next free id
  and submits one job.
\<close>

lemma download_url_registered:
  assumes "net env (requests w) (Head url) = Inr response"
    and "headers response ''Content-Type'' = Some v"
  shows "download_url env dest_dir url w =
    (Inr (),
     w\<lparr>tasks := (tasks w)(task_index w \<mapsto>
          \<lparr>description = ''download'',
           filename = (if takeWhile (\<lambda>x. x \<noteq> CHR '';'') v = ''text/plain''
                       then last (str_split CHR ''/'' url) @ ''.txt''
                       else last (str_split CHR ''/'' url)),
           contenttype = takeWhile (\<lambda>x. x \<noteq> CHR '';'') v,
           responsecode = (if status_code response = 200
                           then ''[green]'' @ str_int (status_code response) @ ''[/]''
                           else ''[red]'' @ str_int (status_code response) @ ''[/]''),
           total_t = 100, completed = 0, started = False\<rparr>),
       task_index := Suc (task_index w),
       requests := requests w @ [Head url],
       pool := pool w @ [(task_index w, url,
          path_join dest_dir (if takeWhile (\<lambda>x. x \<noteq> CHR '';'') v = ''text/plain''
                       then last (str_split CHR ''/'' url) @ ''.txt''
                       else last (str_split CHR ''/'' url)))],
       trace := trace w @ [TaskAdded (task_index w),
          Submitted (task_index w) url
            (path_join dest_dir (if takeWhile (\<lambda>x. x \<noteq> CHR '';'') v = ''text/plain''
                       then last (str_split CHR ''/'' url) @ ''.txt''
                       else last (str_split CHR ''/'' url)))]\<rparr>)"
  using assms
  by (simp add: download_url_def http_def add_task_def pool_submit_def emit_def codes_ok_def
      hd_str_split Let_def)

lemma download_url_raises:
  "net env (requests w) (Head url) = Inl e \<Longrightarrow>
   download_url env dest_dir url w = (Inl e, w\<lparr>requests := requests w @ [Head url]\<rparr>)"
  by (simp add: download_url_def http_def)

lemma download_url_no_content_type:
  "net env (requests w) (Head url) = Inr response \<Longrightarrow>
   headers response ''Content-Type'' = None \<Longrightarrow>
   download_url env dest_dir url w =
     (Inl (KeyError (StrKey ''content-type'')), w\<lparr>requests := requests w @ [Head url]\<rparr>)"
  by (simp add: download_url_def http_def)

lemma download_url_returns:
  assumes "download_url env dest_dir url w = (Inr u, w')"
  shows "requests w' = requests w @ [Head url] \<and> task_index w' = Suc (task_index w)
     \<and> length (pool w') = Suc (length (pool w))"
proof (cases "net env (requests w) (Head url)")
  case (Inl e)
  with assms show ?thesis by (simp add: download_url_raises)
next
  case (Inr response)
  show ?thesis
  proof (cases "headers response ''Content-Type''")
    case None
    with Inr assms show ?thesis by (simp add: download_url_no_content_type)
  next
    case (Some v)
    from assms show ?thesis
      unfolding download_url_registered [OF Inr Some] by auto
  qed
qed

lemma download_loop_append:
  "download_loop env dest_dir (xs @ ys) w =
     (case download_loop env dest_dir xs w of
        (Inl e, w') \<Rightarrow> (Inl e, w')
      | (Inr u, w') \<Rightarrow> download_loop env dest_dir ys w')"
  by (induction xs arbitrary: w) (auto split: prod.splits sum.splits)

lemma download_loop_returns:
  "download_loop env dest_dir urls w = (Inr u, w') \<Longrightarrow>
   requests w' = requests w @ map Head urls \<and> task_index w' = task_index w + length urls
     \<and> length (pool w') = length (pool w) + length urls"
proof (induction urls arbitrary: w)
  case Nil
  then show ?case by simp
next
  case (Cons url urls)
  from Cons.prems obtain w1 where
    step: "download_url env dest_dir url w = (Inr (), w1)"
    and rest: "download_loop env dest_dir urls w1 = (Inr u, w')"
    by (auto split: prod.splits sum.splits)
  from download_url_returns [OF step] Cons.IH [OF rest] show ?case by simp
qed

lemmas dispatch_defs =
  download_url_def http_def add_task_def pool_submit_def emit_def codes_ok_def
  example_env_def example_response_def initial_world_def path_join_def max_workers_def
  str_int_def str_nat.simps digit_chars_def Let_def

subsection \<open>The status indicator\<close>




subsection \<open>The file name\<close>



subsection \<open>Failures of the probe\<close>

text \<open>
  C6. Let the loop have handled the URLs \<open>pre\<close> without an exception, and let the
  HEAD request for the next URL fail in the transport layer with \<open>e\<close>. Then
  \<^verbatim>\<open>download\<close> raises \<open>e\<close>: nothing catches it. The state it leaves is the state after
  \<open>pre\<close> with this one request added (and the pool and the display closed), whatever
  URLs \<open>post\<close> follow: none of them is probed, and no task beyond those of \<open>pre\<close> is
  registered.
\<close>

theorem download_probe_failure:
  assumes "download_loop env dest_dir pre (emit (PoolCreated max_workers) (emit DisplayStarted w))
             = (Inr (), w1)"
    and "net env (requests w1) (Head url) = Inl e"
  shows "download env (pre @ url # post) dest_dir w =
           (Inl e, emit DisplayStopped (emit PoolShutdown (w1\<lparr>requests := requests w1 @ [Head url]\<rparr>)))
     \<and> requests w1 @ [Head url] = requests w @ map Head pre @ [Head url]
     \<and> task_index w1 = task_index w + length pre
     \<and> length (pool w1) = length (pool w) + length pre"
proof -
  have "download env (pre @ url # post) dest_dir w =
           (Inl e, emit DisplayStopped (emit PoolShutdown (w1\<lparr>requests := requests w1 @ [Head url]\<rparr>)))"
    using assms by (simp add: download_def download_loop_append download_url_raises)
  moreover from download_loop_returns [OF assms(1)]
  have "requests w1 = requests w @ map Head pre \<and> task_index w1 = task_index w + length pre
     \<and> length (pool w1) = length (pool w) + length pre"
    by (simp add: emit_def)
  ultimately show ?thesis by simp
qed

text \<open>Three URLs, the second of which cannot be reached.\<close>

theorem download_probe_failure_witness:
  "fst (download
         (example_env
            (\<lambda>u. if u = ''https://example.com/b'' then Inl (RequestException ''refused'')
                  else Inr (example_response 200 [(''Content-Type'', ''text/html'')] []))
            (\<lambda>u. Inl (RequestException ''unused'')) (\<lambda>i. False))
         [''https://example.com/a'', ''https://example.com/b'', ''https://example.com/c'']
         ''./'' initial_world) = Inl (RequestException ''refused'')
   \<and> requests (snd (download
         (example_env
            (\<lambda>u. if u = ''https://example.com/b'' then Inl (RequestException ''refused'')
                  else Inr (example_response 200 [(''Content-Type'', ''text/html'')] []))
            (\<lambda>u. Inl (RequestException ''unused'')) (\<lambda>i. False))
         [''https://example.com/a'', ''https://example.com/b'', ''https://example.com/c'']
         ''./'' initial_world)) = [Head ''https://example.com/a'', Head ''https://example.com/b'']
   \<and> pool (snd (download
         (example_env
            (\<lambda>u. if u = ''https://example.com/b'' then Inl (RequestException ''refused'')
                  else Inr (example_response 200 [(''Content-Type'', ''text/html'')] []))
            (\<lambda>u. Inl (RequestException ''unused'')) (\<lambda>i. False))
         [''https://example.com/a'', ''https://example.com/b'', ''https://example.com/c'']
         ''./'' initial_world)) = [(0, ''https://example.com/a'', ''./a'')]"
proof -
  let ?env = "example_env
            (\<lambda>u. if u = ''https://example.com/b'' then Inl (RequestException ''refused'')
                  else Inr (example_response 200 [(''Content-Type'', ''text/html'')] []))
            (\<lambda>u. Inl (RequestException ''unused'')) (\<lambda>i. False)"
  let ?w = "emit (PoolCreated max_workers) (emit DisplayStarted initial_world)"
  let ?w1 = "snd (download_loop ?env ''./'' [''https://example.com/a''] ?w)"
  have h1: "download_loop ?env ''./'' [''https://example.com/a''] ?w = (Inr (), ?w1)"
    by (simp add: dispatch_defs)
  have h2: "net ?env (requests ?w1) (Head ''https://example.com/b'') = Inl (RequestException ''refused'')"
    by (simp add: example_env_def)
  from download_probe_failure [OF h1 h2, of "[''https://example.com/c'']"]
  have run: "download ?env
       [''https://example.com/a'', ''https://example.com/b'', ''https://example.com/c'']
       ''./'' initial_world =
     (Inl (RequestException ''refused''),
      emit DisplayStopped (emit PoolShutdown
        (?w1\<lparr>requests := requests ?w1 @ [Head ''https://example.com/b'']\<rparr>)))"
    by simp
  show ?thesis unfolding run by (simp add: dispatch_defs)
qed

text \<open>
  C9. Let the loop have handled the URLs \<open>pre\<close> without an exception, and let the
  HEAD response for the next URL have no \<^verbatim>\<open>Content-Type\<close> header. Then \<^verbatim>\<open>download\<close>
  raises the \<^verbatim>\<open>KeyError\<close> of the header lookup. No task is registered and no job is
  submitted for this URL or for any URL after it.
\<close>

theorem download_missing_content_type:
  assumes "download_loop env dest_dir pre (emit (PoolCreated max_workers) (emit DisplayStarted w))
             = (Inr (), w1)"
    and "net env (requests w1) (Head url) = Inr response"
    and "headers response ''Content-Type'' = None"
  shows "download env (pre @ url # post) dest_dir w =
           (Inl (KeyError (StrKey ''content-type'')),
            emit DisplayStopped (emit PoolShutdown (w1\<lparr>requests := requests w1 @ [Head url]\<rparr>)))
     \<and> task_index w1 = task_index w + length pre
     \<and> length (pool w1) = length (pool w) + length pre"
proof -
  have "download env (pre @ url # post) dest_dir w =
           (Inl (KeyError (StrKey ''content-type'')),
            emit DisplayStopped (emit PoolShutdown (w1\<lparr>requests := requests w1 @ [Head url]\<rparr>)))"
    using assms by (simp add: download_def download_loop_append download_url_no_content_type)
  moreover from download_loop_returns [OF assms(1)]
  have "task_index w1 = task_index w + length pre
     \<and> length (pool w1) = length (pool w) + length pre"
    by (simp add: emit_def)
  ultimately show ?thesis by simp
qed

text \<open>Three URLs, the second of which is answered without a content type.\<close>

theorem download_missing_content_type_witness:
  "fst (download
         (example_env
            (\<lambda>u. if u = ''https://example.com/b'' then Inr (example_response 200 [] [])
                  else Inr (example_response 200 [(''Content-Type'', ''text/html'')] []))
            (\<lambda>u. Inl (RequestException ''unused'')) (\<lambda>i. False))
         [''https://example.com/a'', ''https://example.com/b'', ''https://example.com/c'']
         ''./'' initial_world) = Inl (KeyError (StrKey ''content-type''))
   \<and> task_index (snd (download
         (example_env
            (\<lambda>u. if u = ''https://example.com/b'' then Inr (example_response 200 [] [])
                  else Inr (example_response 200 [(''Content-Type'', ''text/html'')] []))
            (\<lambda>u. Inl (RequestException ''unused'')) (\<lambda>i. False))
         [''https://example.com/a'', ''https://example.com/b'', ''https://example.com/c'']
         ''./'' initial_world)) = 1
   \<and> pool (snd (download
         (example_env
            (\<lambda>u. if u = ''https://example.com/b'' then Inr (example_response 200 [] [])
                  else Inr (example_response 200 [(''Content-Type'', ''text/html'')] []))
            (\<lambda>u. Inl (RequestException ''unused'')) (\<lambda>i. False))
         [''https://example.com/a'', ''https://example.com/b'', ''https://example.com/c'']
         ''./'' initial_world)) = [(0, ''https://example.com/a'', ''./a'')]"
proof -
  let ?env = "example_env
            (\<lambda>u. if u = ''https://example.com/b'' then Inr (example_response 200 [] [])
                  else Inr (example_response 200 [(''Content-Type'', ''text/html'')] []))
            (\<lambda>u. Inl (RequestException ''unused'')) (\<lambda>i. False)"
  let ?w = "emit (PoolCreated max_workers) (emit DisplayStarted initial_world)"
  let ?w1 = "snd (download_loop ?env ''./'' [''https://example.com/a''] ?w)"
  have h1: "download_loop ?env ''./'' [''https://example.com/a''] ?w = (Inr (), ?w1)"
    by (simp add: dispatch_defs)
  have h2: "net ?env (requests ?w1) (Head ''https://example.com/b'') = Inr (example_response 200 [] [])"
    by (simp add: example_env_def)
  have h3: "headers (example_response 200 [] []) ''Content-Type'' = None"
    by (simp add: example_response_def)
  from download_missing_content_type [OF h1 h2 h3, of "[''https://example.com/c'']"]
  have run: "download ?env
       [''https://example.com/a'', ''https://example.com/b'', ''https://example.com/c'']
       ''./'' initial_world =
     (Inl (KeyError (StrKey ''content-type'')),
      emit DisplayStopped (emit PoolShutdown
        (?w1\<lparr>requests := requests ?w1 @ [Head ''https://example.com/b'']\<rparr>)))"
    by simp
  show ?thesis unfolding run by (simp add: dispatch_defs)
qed

subsection \<open>No URLs\<close>

text \<open>
  C10. Called with no URLs, \<^verbatim>\<open>download\<close> starts the display, creates the pool, shuts
  it down, stops the display and returns; it issues no request, registers no task
  and submits no job. This is what the help path does when no argument follows
  the flag.
\<close>

theorem download_no_urls:
  "download env [] dest_dir w =
     (Inr (), w\<lparr>trace := trace w @ [DisplayStarted, PoolCreated 4, PoolShutdown, DisplayStopped]\<rparr>)
   \<and> pool (snd (download env [] dest_dir w)) = pool w
   \<and> requests (snd (download env [] dest_dir w)) = requests w
   \<and> tasks (snd (download env [] dest_dir w)) = tasks w
   \<and> main env [prog, ''-h''] w = download env [] ''./'' (print_help_msg w)
   \<and> main env [prog, ''--help''] w = download env [] ''./'' (print_help_msg w)"
  by (simp add: download_def main_def emit_def max_workers_def)

subsection \<open>The chunk loop\<close>

text \<open>
  One iteration of the loop writes and counts one chunk; \<open>transferred\<close> composes
  over the chunks. The event is polled after the chunk has been counted, so an
  iteration that finds it set is the last one, and an iteration that does not
  find it set goes on with the next chunk.
\<close>

lemma chunk_events_Nil [simp]: "chunk_events path tid [] = []"
  by (simp add: chunk_events_def)

lemma chunk_events_Cons [simp]:
  "chunk_events path tid (d # ds) =
     Written path d # Advanced tid (int (length d)) # chunk_events path tid ds"
  by (simp add: chunk_events_def)

lemma chunk_events_append [simp]:
  "chunk_events path tid (ds @ es) = chunk_events path tid ds @ chunk_events path tid es"
  by (simp add: chunk_events_def)






lemma other_transferred [simp]:
  "done_event (transferred tid path ds w) = done_event w"
  "requests (transferred tid path ds w) = requests w"
  "handles (transferred tid path ds w) = handles w"
  "pool (transferred tid path ds w) = pool w"
  "task_index (transferred tid path ds w) = task_index w"
  by (simp_all add: transferred_def)










lemma handled_cancel:
  assumes "k < length ds"
    and "\<forall>j<k. \<not> sigint env (i + j)"
    and "k = 0 \<or> \<not> flag"
    and "flag \<or> sigint env (i + k)"
  shows "handled env flag i (map Inr ds @ rest) = take (Suc k) ds"
  using assms
proof (induction ds arbitrary: i k)
  case Nil
  then show ?case by simp
next
  case (Cons d ds)
  show ?case
  proof (cases k)
    case 0
    with Cons.prems show ?thesis by simp
  next
    case (Suc k')
    with Cons.prems have nf: "\<not> flag" and ns: "\<not> sigint env i"
      and "k' < length ds" and "\<forall>j<k'. \<not> sigint env (Suc i + j)"
      and "flag \<or> sigint env (Suc i + k')"
      by auto
    with Cons.IH [of k' "Suc i"] show ?thesis
      by (simp add: Suc)
  qed
qed





lemma other_ready [simp]:
  "done_event (ready tid url path n w) = done_event w"
  "requests (ready tid url path n w) = requests w @ [Get url True, Head url]"
  "handles (ready tid url path n w) = path # handles w"
  "pool (ready tid url path n w) = pool w"
  "task_index (ready tid url path n w) = task_index w"
  "trace (ready tid url path n w) = trace w @
         [Logged (''Requesting '' @ url), TotalSet tid n, Opened path, TaskStarted tid]"
  by (simp_all add: ready_def)









lemma advanced_by_append:
  "advanced_by tid (xs @ ys) = advanced_by tid xs + advanced_by tid ys"
  by (induction tid xs rule: advanced_by.induct) auto







lemma download_url_frame:
  assumes "download_url env dest_dir url w = (r, w')"
  shows "(\<forall>j<task_index w. tasks w' j = tasks w j)
     \<and> task_index w \<le> task_index w'
     \<and> (\<exists>evs. trace w' = trace w @ evs \<and> (\<forall>j. advanced_by j evs = 0))"
proof (cases "net env (requests w) (Head url)")
  case (Inl e)
  with assms show ?thesis by (auto simp: download_url_raises)
next
  case (Inr response)
  show ?thesis
  proof (cases "headers response ''Content-Type''")
    case None
    with Inr assms show ?thesis by (auto simp: download_url_no_content_type)
  next
    case (Some v)
    from assms show ?thesis
      unfolding download_url_registered [OF Inr Some] by auto
  qed
qed

lemma download_loop_frame:
  "download_loop env dest_dir urls w = (r, w') \<Longrightarrow>
   (\<forall>j<task_index w. tasks w' j = tasks w j)
     \<and> task_index w \<le> task_index w'
     \<and> (\<exists>evs. trace w' = trace w @ evs \<and> (\<forall>j. advanced_by j evs = 0))"
proof (induction urls arbitrary: w)
  case Nil
  then show ?case by simp
next
  case (Cons url urls)
  obtain r1 w1 where step: "download_url env dest_dir url w = (r1, w1)"
    by (cases "download_url env dest_dir url w") auto
  note f1 = download_url_frame [OF step]
  show ?case
  proof (cases r1)
    case (Inl e)
    with Cons.prems step f1 show ?thesis by auto
  next
    case (Inr u)
    with Cons.prems step have rest: "download_loop env dest_dir urls w1 = (r, w')" by simp
    from f1 Cons.IH [OF rest] show ?thesis
      by (auto simp: advanced_by_append)
  qed
qed

lemma download_frame:
  assumes "download env urls dest_dir w = (r, w')"
  shows "(\<forall>j<task_index w. tasks w' j = tasks w j)
     \<and> (\<exists>evs. trace w' = trace w @ evs \<and> (\<forall>j. advanced_by j evs = 0))"
proof -
  let ?w0 = "emit (PoolCreated max_workers) (emit DisplayStarted w)"
  obtain r1 w1 where loop: "download_loop env dest_dir urls ?w0 = (r1, w1)"
    by (cases "download_loop env dest_dir urls ?w0") auto
  from download_loop_frame [OF loop] obtain evs where
    "\<forall>j<task_index w. tasks w1 j = tasks w j"
    and "trace w1 = trace w @ [DisplayStarted, PoolCreated max_workers] @ evs"
    and "\<forall>j. advanced_by j evs = 0"
    by (auto simp: emit_def)
  moreover from assms loop have "w' = emit DisplayStopped (emit PoolShutdown w1)"
    by (simp add: download_def)
  ultimately have "(\<forall>j<task_index w. tasks w' j = tasks w j)
    \<and> trace w' = trace w @ ([DisplayStarted, PoolCreated max_workers] @ evs @ [PoolShutdown, DisplayStopped])
    \<and> (\<forall>j. advanced_by j ([DisplayStarted, PoolCreated max_workers] @ evs @ [PoolShutdown, DisplayStopped]) = 0)"
    by (simp add: emit_def advanced_by_append)
  then show ?thesis by blast
qed




subsection \<open>The declared total\<close>




subsection \<open>Cancellation\<close>




subsection \<open>Chunk accounting\<close>




subsection \<open>The help flag\<close>

lemma download_trace:
  "\<exists>evs. trace (snd (download env urls dest_dir w)) = trace w @ evs"
  using download_frame [of env urls dest_dir w "fst (download env urls dest_dir w)"
      "snd (download env urls dest_dir w)"]
  by auto

text \<open>
  C7, as the code has it. With \<^verbatim>\<open>-h\<close> or \<^verbatim>\<open>--help\<close> as the first argument the program
  prints the usage message and then calls \<^verbatim>\<open>download\<close> on the remaining arguments
  with the directory \<^verbatim>\<open>./\<close>. The exit status is 0 when that call returns, which it
  always does when no argument remains, and 1 when it raises.
\<close>

theorem main_help:
  assumes "flag = ''-h'' \<or> flag = ''--help''"
  shows "main env (prog # flag # rest) w = download env rest ''./'' (print_help_msg w)
     \<and> (\<exists>evs. trace (snd (main env (prog # flag # rest) w)) = trace w @ Printed help_msg # evs)
     \<and> exit_code (main env (prog # flag # rest) w) =
         (case fst (download env rest ''./'' (print_help_msg w)) of Inl e \<Rightarrow> 1 | Inr u \<Rightarrow> 0)
     \<and> exit_code (main env [prog, flag] w) = 0"
proof -
  have m: "main env (prog # flag # rest) w = download env rest ''./'' (print_help_msg w)" for rest
    using assms by (auto simp: main_def)
  from download_trace [of env rest "''./''" "print_help_msg w"]
  have "\<exists>evs. trace (snd (main env (prog # flag # rest) w)) = trace w @ Printed help_msg # evs"
    by (auto simp: m print_help_msg_def emit_def)
  moreover have "exit_code (main env [prog, flag] w) = 0"
    by (simp add: m exit_code_def download_def)
  ultimately show ?thesis
    by (simp add: m exit_code_def)
qed

text \<open>
  \<^verbatim>\<open>--help\<close> followed by a URL that can be probed: the job is submitted and the
  exit status is 0; \<^verbatim>\<open>-h\<close> alone exits with 0.
\<close>

theorem main_help_witness:
  "main
     (example_env (\<lambda>u. Inr (example_response 200 [(''Content-Type'', ''text/html'')] []))
        (\<lambda>u. Inl (RequestException ''unused'')) (\<lambda>i. False))
     [''DownCLI.py'', ''--help'', ''https://example.com/a''] initial_world =
   download
     (example_env (\<lambda>u. Inr (example_response 200 [(''Content-Type'', ''text/html'')] []))
        (\<lambda>u. Inl (RequestException ''unused'')) (\<lambda>i. False))
     [''https://example.com/a''] ''./'' (print_help_msg initial_world)
   \<and> exit_code (main
     (example_env (\<lambda>u. Inr (example_response 200 [(''Content-Type'', ''text/html'')] []))
        (\<lambda>u. Inl (RequestException ''unused'')) (\<lambda>i. False))
     [''DownCLI.py'', ''--help'', ''https://example.com/a''] initial_world) = 0
   \<and> pool (snd (main
     (example_env (\<lambda>u. Inr (example_response 200 [(''Content-Type'', ''text/html'')] []))
        (\<lambda>u. Inl (RequestException ''unused'')) (\<lambda>i. False))
     [''DownCLI.py'', ''--help'', ''https://example.com/a''] initial_world))
     = [(0, ''https://example.com/a'', ''./a'')]
   \<and> exit_code (main
     (example_env (\<lambda>u. Inr (example_response 200 [(''Content-Type'', ''text/html'')] []))
        (\<lambda>u. Inl (RequestException ''unused'')) (\<lambda>i. False))
     [''DownCLI.py'', ''-h''] initial_world) = 0"
proof -
  let ?env = "example_env (\<lambda>u. Inr (example_response 200 [(''Content-Type'', ''text/html'')] []))
        (\<lambda>u. Inl (RequestException ''unused'')) (\<lambda>i. False)"
  have f1: "''--help'' = ''-h'' \<or> ''--help'' = ''--help''" by simp
  have f2: "''-h'' = ''-h'' \<or> ''-h'' = ''--help''" by simp
  note a = main_help [OF f1, of ?env "''DownCLI.py''" "[''https://example.com/a'']" initial_world]
  note b = main_help [OF f2, of ?env "''DownCLI.py''" "[]" initial_world]
  from a have m: "main ?env [''DownCLI.py'', ''--help'', ''https://example.com/a''] initial_world =
      download ?env [''https://example.com/a''] ''./'' (print_help_msg initial_world)"
    by blast
  have ev: "download ?env [''https://example.com/a''] ''./'' (print_help_msg initial_world) =
      (Inr (), snd (download ?env [''https://example.com/a''] ''./'' (print_help_msg initial_world)))"
    by (simp add: download_def dispatch_defs print_help_msg_def)
  have p: "pool (snd (download ?env [''https://example.com/a''] ''./'' (print_help_msg initial_world)))
      = [(0, ''https://example.com/a'', ''./a'')]"
    by (simp add: download_def dispatch_defs print_help_msg_def)
  from a have "exit_code (main ?env [''DownCLI.py'', ''--help'', ''https://example.com/a''] initial_world) =
         (case fst (download ?env [''https://example.com/a''] ''./'' (print_help_msg initial_world))
          of Inl e \<Rightarrow> 1 | Inr u \<Rightarrow> 0)"
    by blast
  then have x: "exit_code (main ?env [''DownCLI.py'', ''--help'', ''https://example.com/a''] initial_world) = 0"
    by (subst (asm) ev) simp
  from b have y: "exit_code (main ?env [''DownCLI.py'', ''-h''] initial_world) = 0"
    by blast
  show ?thesis
    using m x y p by (simp only: m)
qed

text \<open>
  C7 as it is worded fails when the download of the remaining arguments raises:
  the usage message is printed, the URL is probed, and the exit status is 1.
\<close>

theorem main_help_counterexample:
  "exit_code (main
     (example_env (\<lambda>u. Inl (RequestException ''refused''))
        (\<lambda>u. Inl (RequestException ''unused'')) (\<lambda>i. False))
     [''DownCLI.py'', ''--help'', ''https://example.com/a''] initial_world) = 1
   \<and> Printed help_msg \<in> set (trace (snd (main
     (example_env (\<lambda>u. Inl (RequestException ''refused''))
        (\<lambda>u. Inl (RequestException ''unused'')) (\<lambda>i. False))
     [''DownCLI.py'', ''--help'', ''https://example.com/a''] initial_world)))
   \<and> requests (snd (main
     (example_env (\<lambda>u. Inl (RequestException ''refused''))
        (\<lambda>u. Inl (RequestException ''unused'')) (\<lambda>i. False))
     [''DownCLI.py'', ''--help'', ''https://example.com/a''] initial_world))
     = [Head ''https://example.com/a'']"
  by (simp add: main_def exit_code_def download_def dispatch_defs print_help_msg_def)

end
